theory Spec2Isabelle
  imports
    Complex_Main
    "HOL-Library.Word"
    "HOL-Library.Monad_Syntax"
    "HOL-Library.Option_ord"
    "HOL-Library.Multiset"
begin

section \<open>Values\<close>

text \<open>
  A naive \<^verbatim>\<open>datetime\<close> is a point on the microsecond time line; comparing two naive
  datetimes is comparing these integers. A float column only carries its value here,
  no arithmetic is done on it, so its finite values are rationals.
\<close>

type_synonym datetime = int
type_synonym pyfloat = rat
type_synonym uuid = "128 word"

text \<open>The content of a \<^verbatim>\<open>JSON\<close> column: no schema is enforced on it.\<close>

datatype json =
    JNull
  | JBool bool
  | JNum rat
  | JStr string
  | JArr "json list"
  | JObj "(string \<times> json) list"

text \<open>The Python values that occur as entries of the dictionaries built by the code.\<close>

datatype pyval =
    PyNone
  | PyInt int
  | PyFloat pyfloat
  | PyStr string
  | PyDatetime datetime
  | PyJson json

text \<open>A dictionary literal, in the order its keys are written.\<close>

type_synonym pydict = "(string \<times> pyval) list"

section \<open>database/models.py\<close>

subsection \<open>The row class \<^verbatim>\<open>LLMRequest\<close>\<close>

text \<open>
  One attribute per \<^verbatim>\<open>Column\<close>. The columns declared \<^verbatim>\<open>nullable=False\<close> without a
  default hold a value; \<^verbatim>\<open>id\<close> (autoincrement) and \<^verbatim>\<open>created_at\<close> (column default) are
  \<^verbatim>\<open>None\<close> until the row is inserted, and \<^verbatim>\<open>metadata\<close> is nullable.
\<close>

record LLMRequest =
  id :: "int option"
  app_id :: string
  model_name :: string
  prompt :: string
  response :: string
  latency_ms :: pyfloat
  created_at :: "datetime option"
  metadata :: "json option"

text \<open>
  \<^verbatim>\<open>LLMRequest.to_dict\<close>. The method \<^verbatim>\<open>isoformat\<close> of the standard library is a parameter.
  A datetime object is always truthy, so \<^verbatim>\<open>x.isoformat() if x else None\<close> tests for \<^verbatim>\<open>None\<close>.
\<close>

definition to_dict :: "(datetime \<Rightarrow> string) \<Rightarrow> LLMRequest \<Rightarrow> pydict" where
  "to_dict isoformat self =
     [(''id'', case id self of None \<Rightarrow> PyNone | Some n \<Rightarrow> PyInt n),
      (''app_id'', PyStr (app_id self)),
      (''model_name'', PyStr (model_name self)),
      (''prompt'', PyStr (prompt self)),
      (''response'', PyStr (response self)),
      (''latency_ms'', PyFloat (latency_ms self)),
      (''created_at'', case created_at self of None \<Rightarrow> PyNone | Some t \<Rightarrow> PyStr (isoformat t)),
      (''metadata'', case metadata self of None \<Rightarrow> PyNone | Some j \<Rightarrow> PyJson j)]"

subsection \<open>The declared schema\<close>

datatype coltype = Integer | String255 | Text | Float | DateTime | JSON

record column =
  c_name :: string
  c_type :: coltype
  c_primary_key :: bool
  c_autoincrement :: bool
  c_nullable :: bool
  c_index :: bool

record index =
  i_name :: string
  i_columns :: "string list"

record table =
  t_name :: string
  t_columns :: "column list"
  t_args :: "index list"

definition Column :: "string \<Rightarrow> coltype \<Rightarrow> bool \<Rightarrow> bool \<Rightarrow> bool \<Rightarrow> bool \<Rightarrow> column" where
  "Column n ty pk ai nullable ix =
     \<lparr>c_name = n, c_type = ty, c_primary_key = pk, c_autoincrement = ai,
      c_nullable = nullable, c_index = ix\<rparr>"

definition Index :: "string \<Rightarrow> string list \<Rightarrow> index" where
  "Index n cols = \<lparr>i_name = n, i_columns = cols\<rparr>"

text \<open>The class body of \<^verbatim>\<open>LLMRequest\<close>: \<^verbatim>\<open>__tablename__\<close>, the columns, \<^verbatim>\<open>__table_args__\<close>.\<close>

definition llm_requests :: table where
  "llm_requests =
     \<lparr>t_name = ''llm_requests'',
      t_columns =
        [Column ''id'' Integer True True False False,
         Column ''app_id'' String255 False False False True,
         Column ''model_name'' String255 False False False True,
         Column ''prompt'' Text False False False False,
         Column ''response'' Text False False False False,
         Column ''latency_ms'' Float False False False False,
         Column ''created_at'' DateTime False False False True,
         Column ''metadata'' JSON False False True False],
      t_args =
        [Index ''idx_app_created'' [''app_id'', ''created_at''],
         Index ''idx_model_created'' [''model_name'', ''created_at'']]\<rparr>"

text \<open>
  The indexes of a table (\<^verbatim>\<open>__table__.indexes\<close>): one single-column index for every column
  declared with \<^verbatim>\<open>index=True\<close>, named \<^verbatim>\<open>ix_<table>_<column>\<close>, and the indexes listed in
  \<^verbatim>\<open>__table_args__\<close>.
\<close>

definition table_indexes :: "table \<Rightarrow> index list" where
  "table_indexes t =
     map (\<lambda>c. Index (''ix_'' @ t_name t @ ''_'' @ c_name c) [c_name c])
       (filter c_index (t_columns t))
     @ t_args t"

definition composite :: "index \<Rightarrow> bool" where
  "composite i = (2 \<le> length (i_columns i))"

text \<open>
  \<^verbatim>\<open>get_model_info\<close>: for every model class of the declarative base, here the one class
  \<^verbatim>\<open>LLMRequest\<close>, the name of its table, the number of its columns and the number of its
  indexes (the entry holding the class object itself is left out).
\<close>

record model_info =
  m_table :: string
  m_columns :: nat
  m_indexes :: nat

definition get_model_info :: "(string \<times> model_info) list" where
  "get_model_info =
     [(''llm_requests'',
       \<lparr>m_table = t_name llm_requests,
        m_columns = length (t_columns llm_requests),
        m_indexes = length (table_indexes llm_requests)\<rparr>)]"

text \<open>
  Modelled from the spec: the lookup operations \<^verbatim>\<open>queryByApp\<close> and \<^verbatim>\<open>queryByModel\<close> of the
  storage layer, which the repository announces (\<^verbatim>\<open>database/db.py\<close>) but does not contain.
  They return the persisted rows whose key matches exactly, ordered by \<^verbatim>\<open>created_at\<close>
  ascending. The optional time range is left out: the spec gives it no meaning.
\<close>

definition queryByApp :: "string \<Rightarrow> LLMRequest list \<Rightarrow> LLMRequest list" where
  "queryByApp a rows = sort_key created_at (filter (\<lambda>r. app_id r = a) rows)"

definition queryByModel :: "string \<Rightarrow> LLMRequest list \<Rightarrow> LLMRequest list" where
  "queryByModel m rows = sort_key created_at (filter (\<lambda>r. model_name r = m) rows)"

section \<open>api/main.py\<close>

subsection \<open>Identifiers\<close>

text \<open>
  \<^verbatim>\<open>uuid.uuid4()\<close> draws the identifier; the value drawn is an input of the model.
  \<^verbatim>\<open>str\<close> of a UUID is its 32 lower-case hexadecimal digits, most significant first,
  grouped 8-4-4-4-12.
\<close>

definition hex_digit :: "nat \<Rightarrow> char" where
  "hex_digit d = ''0123456789abcdef'' ! d"

definition nibble :: "uuid \<Rightarrow> nat \<Rightarrow> nat" where
  "nibble u i = unat (take_bit 4 (drop_bit (4 * i) u))"

definition hex32 :: "uuid \<Rightarrow> string" where
  "hex32 u = map (\<lambda>i. hex_digit (nibble u (31 - i))) [0..<32]"

definition str_uuid :: "uuid \<Rightarrow> string" where
  "str_uuid u =
     (let h = hex32 u in
      take 8 h @ ''-'' @ take 4 (drop 8 h) @ ''-'' @ take 4 (drop 12 h) @ ''-''
      @ take 4 (drop 16 h) @ ''-'' @ drop 20 h)"

subsection \<open>Schemas\<close>

record TelemetryEvent =
  app_id :: string
  model_name :: string
  prompt :: string
  response :: string
  latency_ms :: int
  token_count :: "int option"
  timestamp :: "datetime option"

record TelemetryResponse =
  request_id :: string
  status :: string

text \<open>
  A field of the body of a request, as validation meets it: absent (or null), holding a
  value that the validation of the declared type refuses, or holding a value of that type.
  For the two integer fields the value is the JSON number sent, which need not be integral,
  and \<open>Invalid\<close> stands for a value that is no number and is refused; how a number becomes
  an \<^verbatim>\<open>int\<close> is modelled below.
\<close>

datatype 'a field = Absent | Invalid | Valid 'a

record request_body =
  b_app_id :: "string field"
  b_model_name :: "string field"
  b_prompt :: "string field"
  b_response :: "string field"
  b_latency_ms :: "rat field"
  b_token_count :: "rat field"
  b_timestamp :: "datetime field"

text \<open>
  The framework validates the body against \<^verbatim>\<open>TelemetryEvent\<close> before it calls the handler,
  and answers a body that fails with status 422 and the list of the fields at fault.
\<close>

datatype error = RequestValidationError "string list"

fun status_code :: "error \<Rightarrow> nat" where
  "status_code (RequestValidationError names) = 422"

definition client_error :: "error \<Rightarrow> bool" where
  "client_error e = (400 \<le> status_code e \<and> status_code e < 500)"

text \<open>
  How the validation library turns a JSON number into an \<^verbatim>\<open>int\<close> depends on its major
  version, which the repository does not fix: it is a parameter. Version 2 accepts a number
  without fractional part whose magnitude is below \<open>2^63\<close>; it refuses a number with a
  fractional part and a float beyond that range. An integer written out in full beyond
  that range is treated like such a float here, and no statement below is about one.
  Version 1 applies \<^verbatim>\<open>int()\<close>, which truncates towards zero.
\<close>

type_synonym int_validator = "rat \<Rightarrow> int option"

definition int_lax :: int_validator where
  "int_lax x =
     (if of_int \<lfloor>x\<rfloor> = x \<and> - (2 ^ 63) < x \<and> x < 2 ^ 63 then Some \<lfloor>x\<rfloor> else None)"

definition int_coerce :: int_validator where
  "int_coerce x = Some (if 0 \<le> x then \<lfloor>x\<rfloor> else \<lceil>x\<rceil>)"

text \<open>A field declared without default (\<^verbatim>\<open>...\<close>), and one declared \<^verbatim>\<open>Optional\<close>.\<close>

definition required :: "'a field \<Rightarrow> 'a option" where
  "required v = (case v of Valid x \<Rightarrow> Some x | Absent \<Rightarrow> None | Invalid \<Rightarrow> None)"

definition optional :: "'a field \<Rightarrow> 'a option option" where
  "optional v = (case v of Valid x \<Rightarrow> Some (Some x) | Absent \<Rightarrow> Some None | Invalid \<Rightarrow> None)"

text \<open>\<^verbatim>\<open>latency_ms: int = Field(..., ge=0)\<close>: required, an integer, at least 0.\<close>

definition field_latency_ms :: "int_validator \<Rightarrow> rat field \<Rightarrow> int option" where
  "field_latency_ms iv v =
     (case required v of
        None \<Rightarrow> None
      | Some x \<Rightarrow> (case iv x of None \<Rightarrow> None | Some n \<Rightarrow> if 0 \<le> n then Some n else None))"

text \<open>\<^verbatim>\<open>token_count: Optional[int] = None\<close>: absent, or an integer.\<close>

definition field_token_count :: "int_validator \<Rightarrow> rat field \<Rightarrow> int option option" where
  "field_token_count iv v =
     (case optional v of
        None \<Rightarrow> None
      | Some None \<Rightarrow> Some None
      | Some (Some x) \<Rightarrow> (case iv x of None \<Rightarrow> None | Some n \<Rightarrow> Some (Some n)))"

definition fields_at_fault :: "int_validator \<Rightarrow> request_body \<Rightarrow> string list" where
  "fields_at_fault iv b =
     (if required (b_app_id b) = None then [''app_id''] else [])
     @ (if required (b_model_name b) = None then [''model_name''] else [])
     @ (if required (b_prompt b) = None then [''prompt''] else [])
     @ (if required (b_response b) = None then [''response''] else [])
     @ (if field_latency_ms iv (b_latency_ms b) = None then [''latency_ms''] else [])
     @ (if field_token_count iv (b_token_count b) = None then [''token_count''] else [])
     @ (if optional (b_timestamp b) = None then [''timestamp''] else [])"

definition validate_TelemetryEvent ::
  "int_validator \<Rightarrow> request_body \<Rightarrow> error + TelemetryEvent" where
  "validate_TelemetryEvent iv b =
     (case do {
             a \<leftarrow> required (b_app_id b);
             m \<leftarrow> required (b_model_name b);
             p \<leftarrow> required (b_prompt b);
             r \<leftarrow> required (b_response b);
             l \<leftarrow> field_latency_ms iv (b_latency_ms b);
             tc \<leftarrow> field_token_count iv (b_token_count b);
             ts \<leftarrow> optional (b_timestamp b);
             Some \<lparr>app_id = a, model_name = m, prompt = p, response = r, latency_ms = l,
                   token_count = tc, timestamp = ts\<rparr>
           } of
        Some event \<Rightarrow> Inr event
      | None \<Rightarrow> Inl (RequestValidationError (fields_at_fault iv b)))"

subsection \<open>The handler\<close>

text \<open>
  What the service can change: the console it prints to, and the rows of the table
  \<^verbatim>\<open>llm_requests\<close>. \<^verbatim>\<open>print\<close> of a dictionary is kept as the dictionary.
\<close>

datatype printed = Line string | Repr pydict

record world =
  console :: "printed list"
  rows :: "LLMRequest list"

definition print :: "printed \<Rightarrow> world \<Rightarrow> world" where
  "print x w = w\<lparr>console := console w @ [x]\<rparr>"

text \<open>
  \<^verbatim>\<open>log_telemetry\<close>, with the UUID drawn by \<^verbatim>\<open>uuid.uuid4()\<close> and the reading of
  \<^verbatim>\<open>datetime.utcnow()\<close> at this call as inputs. The session block is a comment in the source:
  the handler prints the record and adds nothing to the table.
\<close>

definition telemetry_record :: "string \<Rightarrow> datetime \<Rightarrow> TelemetryEvent \<Rightarrow> pydict" where
  "telemetry_record rid event_timestamp event =
     [(''id'', PyStr rid),
      (''app_id'', PyStr (app_id event)),
      (''model_name'', PyStr (model_name event)),
      (''prompt'', PyStr (prompt event)),
      (''response'', PyStr (response event)),
      (''latency_ms'', PyInt (latency_ms event)),
      (''token_count'', case token_count event of None \<Rightarrow> PyNone | Some n \<Rightarrow> PyInt n),
      (''timestamp'', PyDatetime event_timestamp)]"

definition log_telemetry ::
  "uuid \<Rightarrow> datetime \<Rightarrow> TelemetryEvent \<Rightarrow> world \<Rightarrow> TelemetryResponse \<times> world" where
  "log_telemetry u utcnow event w =
     (let rid = str_uuid u;
          event_timestamp = (case timestamp event of Some t \<Rightarrow> t | None \<Rightarrow> utcnow);
          d = telemetry_record rid event_timestamp event;
          w1 = print (Line ''Received telemetry:'') w;
          w2 = print (Repr d) w1
      in (\<lparr>request_id = rid, status = ''logged''\<rparr>, w2))"

text \<open>The route \<^verbatim>\<open>POST /log\<close>: validation by the framework, then the handler.\<close>

definition post_log ::
  "int_validator \<Rightarrow> uuid \<Rightarrow> datetime \<Rightarrow> request_body \<Rightarrow> world
     \<Rightarrow> (error + TelemetryResponse) \<times> world" where
  "post_log iv u utcnow b w =
     (case validate_TelemetryEvent iv b of
        Inl e \<Rightarrow> (Inl e, w)
      | Inr event \<Rightarrow> (case log_telemetry u utcnow event w of (resp, w') \<Rightarrow> (Inr resp, w')))"

subsection \<open>Requests served one after the other\<close>



text \<open>The identifiers handed out by a run, and the records a console shows.\<close>

fun issued :: "(error + TelemetryResponse) list \<Rightarrow> string list" where
  "issued [] = []"
| "issued (Inl e # rs) = issued rs"
| "issued (Inr resp # rs) = request_id resp # issued rs"

fun printed_records :: "printed list \<Rightarrow> pydict list" where
  "printed_records [] = []"
| "printed_records (Line s # os) = printed_records os"
| "printed_records (Repr d # os) = d # printed_records os"

subsection \<open>Handlers running at the same time\<close>

text \<open>
  The handler is a plain \<^verbatim>\<open>def\<close>, which the framework runs in a pool of threads, so the
  statements of two calls can interleave. A handler that has received its validated event
  draws the identifier (line 58), then settles the timestamp (line 61), then builds the
  record, prints and returns (lines 65 to 88, taken as one step: how the output of two
  handlers mixes on the console does not bear on the timestamps). The clock is read at
  line 61 only when the event has no timestamp. The last state keeps the record printed
  and the response.
\<close>

datatype handler =
    Received TelemetryEvent
  | Identified string TelemetryEvent
  | Stamped string datetime TelemetryEvent
  | Returned pydict TelemetryResponse

fun advance :: "uuid \<Rightarrow> datetime \<Rightarrow> handler \<Rightarrow> world \<Rightarrow> handler \<times> world" where
  "advance u utcnow (Received event) w = (Identified (str_uuid u) event, w)"
| "advance u utcnow (Identified rid event) w =
     (Stamped rid (case timestamp event of Some t \<Rightarrow> t | None \<Rightarrow> utcnow) event, w)"
| "advance u utcnow (Stamped rid event_timestamp event) w =
     (let d = telemetry_record rid event_timestamp event;
          w1 = print (Line ''Received telemetry:'') w;
          w2 = print (Repr d) w1
      in (Returned d \<lparr>request_id = rid, status = ''logged''\<rparr>, w2))"
| "advance u utcnow (Returned d resp) w = (Returned d resp, w)"

text \<open>
  One tick of the pool: the thread that runs, the reading of the clock at that moment and
  the UUID that \<^verbatim>\<open>uuid4\<close> returns if it is called. The clock is monotone when the readings
  do not decrease from tick to tick.
\<close>

record tick =
  k_thread :: nat
  k_utcnow :: datetime
  k_uuid :: uuid

fun step :: "tick \<Rightarrow> handler list \<times> world \<Rightarrow> handler list \<times> world" where
  "step k (hs, w) =
     (if k_thread k < length hs
      then (case advance (k_uuid k) (k_utcnow k) (hs ! k_thread k) w of
              (h, w') \<Rightarrow> (hs[k_thread k := h], w'))
      else (hs, w))"

definition run :: "tick list \<Rightarrow> handler list \<times> world \<Rightarrow> handler list \<times> world" where
  "run ks s = fold step ks s"

text \<open>What a handler has settled so far: its identifier, and its timestamp.\<close>

fun identifier_of :: "handler \<Rightarrow> string option" where
  "identifier_of (Received event) = None"
| "identifier_of (Identified rid event) = Some rid"
| "identifier_of (Stamped rid ts event) = Some rid"
| "identifier_of (Returned d resp) = Some (request_id resp)"

subsection \<open>Reading results\<close>


text \<open>
  The \<^verbatim>\<open>timestamp\<close> entry of a record, and the timestamp a handler has settled: none
  before line 61, afterwards the value of \<^verbatim>\<open>event_timestamp\<close>, which is the entry of the
  record it prints.
\<close>

definition timestamp_entry :: "pydict \<Rightarrow> datetime option" where
  "timestamp_entry d = (case map_of d ''timestamp'' of Some (PyDatetime t) \<Rightarrow> Some t | _ \<Rightarrow> None)"

definition timestamp_of :: "handler \<Rightarrow> datetime option" where
  "timestamp_of h =
     (case h of
        Received event \<Rightarrow> None
      | Identified rid event \<Rightarrow> None
      | Stamped rid ts event \<Rightarrow> Some ts
      | Returned d resp \<Rightarrow> timestamp_entry d)"

section \<open>Concrete inputs\<close>

text \<open>
  Two version-4 UUIDs; the submission of the spec's scenario and variants of it: latency
  -5, latency -0.5, no prompt, a token count, latency 120.5, a timestamp supplied by the
  client; a world with nothing printed and nothing stored.
\<close>

definition uuid_a :: uuid where
  "uuid_a = 0x3f2b8a1c9d4e4f6a8b7c1d2e3f4a5b6c"

definition uuid_b :: uuid where
  "uuid_b = 0x9c5b94b135ad49bbb1188e8fc24abf80"

definition scenario_body :: request_body where
  "scenario_body =
     \<lparr>b_app_id = Valid ''chatbot-v1'', b_model_name = Valid ''gpt-4o-mini'',
      b_prompt = Valid ''hi'', b_response = Valid ''hello'', b_latency_ms = Valid 120,
      b_token_count = Absent, b_timestamp = Absent\<rparr>"

definition negative_body :: request_body where
  "negative_body = scenario_body\<lparr>b_latency_ms := Valid (-5)\<rparr>"

definition half_negative_body :: request_body where
  "half_negative_body = scenario_body\<lparr>b_latency_ms := Valid (- 1 / 2)\<rparr>"

definition missing_body :: request_body where
  "missing_body = scenario_body\<lparr>b_prompt := Absent\<rparr>"

definition token_body :: request_body where
  "token_body = scenario_body\<lparr>b_token_count := Valid 42\<rparr>"

definition fractional_body :: request_body where
  "fractional_body = scenario_body\<lparr>b_latency_ms := Valid (241 / 2)\<rparr>"

definition stamped_body :: request_body where
  "stamped_body = scenario_body\<lparr>b_timestamp := Valid 2000000000000000\<rparr>"

definition empty_world :: world where
  "empty_world = \<lparr>console = [], rows = []\<rparr>"



text \<open>
  Two handlers that have each received the validated scenario submission, and a schedule
  under a clock that advances by one microsecond per tick: thread 0 draws its identifier
  first, thread 1 draws its own and reads the clock, and only then thread 0 reads the clock.
\<close>

definition scenario_event :: TelemetryEvent where
  "scenario_event =
     \<lparr>app_id = ''chatbot-v1'', model_name = ''gpt-4o-mini'', prompt = ''hi'',
      response = ''hello'', latency_ms = 120, token_count = None, timestamp = None\<rparr>"

definition two_handlers :: "handler list \<times> world" where
  "two_handlers = ([Received scenario_event, Received scenario_event], empty_world)"

definition at_tick :: "nat \<Rightarrow> datetime \<Rightarrow> uuid \<Rightarrow> tick" where
  "at_tick i t u = \<lparr>k_thread = i, k_utcnow = t, k_uuid = u\<rparr>"

definition overtaking :: "tick list" where
  "overtaking =
     [at_tick 0 1700000000000000 uuid_a,
      at_tick 1 1700000000000001 uuid_b,
      at_tick 1 1700000000000002 uuid_b,
      at_tick 0 1700000000000003 uuid_a,
      at_tick 1 1700000000000004 uuid_b,
      at_tick 0 1700000000000005 uuid_a]"

text \<open>
  Three inserted rows, newest first.
\<close>

definition row :: "int \<Rightarrow> string \<Rightarrow> string \<Rightarrow> datetime \<Rightarrow> LLMRequest" where
  "row n a m t =
     \<lparr>id = Some n, app_id = a, model_name = m, prompt = ''hi'', response = ''hello'',
      latency_ms = 120, created_at = Some t, metadata = None\<rparr>"

definition stored_rows :: "LLMRequest list" where
  "stored_rows =
     [row 1 ''chatbot-v1'' ''gpt-4o-mini'' 30,
      row 2 ''search'' ''llama3:8b'' 20,
      row 3 ''chatbot-v1'' ''llama3:8b'' 10]"

section \<open>Properties of the storage model\<close>

text \<open>
  C10: \<^verbatim>\<open>to_dict\<close> has exactly the keys id, app_id, model_name, prompt, response,
  latency_ms, created_at and metadata, so no token_count; created_at is the ISO string
  of the stored timestamp when there is one and \<^verbatim>\<open>None\<close> otherwise; every other key
  carries the stored attribute unchanged.
\<close>

theorem to_dict_entries:
  "map fst (to_dict isoformat r) =
     [''id'', ''app_id'', ''model_name'', ''prompt'', ''response'', ''latency_ms'',
      ''created_at'', ''metadata'']
   \<and> map_of (to_dict isoformat r) ''token_count'' = None
   \<and> map_of (to_dict isoformat r) ''created_at''
       = Some (case created_at r of None \<Rightarrow> PyNone | Some t \<Rightarrow> PyStr (isoformat t))
   \<and> map_of (to_dict isoformat r) ''id''
       = Some (case LLMRequest.id r of None \<Rightarrow> PyNone | Some n \<Rightarrow> PyInt n)
   \<and> map_of (to_dict isoformat r) ''app_id'' = Some (PyStr (LLMRequest.app_id r))
   \<and> map_of (to_dict isoformat r) ''model_name'' = Some (PyStr (LLMRequest.model_name r))
   \<and> map_of (to_dict isoformat r) ''prompt'' = Some (PyStr (LLMRequest.prompt r))
   \<and> map_of (to_dict isoformat r) ''response'' = Some (PyStr (LLMRequest.response r))
   \<and> map_of (to_dict isoformat r) ''latency_ms'' = Some (PyFloat (LLMRequest.latency_ms r))
   \<and> map_of (to_dict isoformat r) ''metadata''
       = Some (case metadata r of None \<Rightarrow> PyNone | Some j \<Rightarrow> PyJson j)"
  by (simp add: to_dict_def)

text \<open>
  C6: the declarative base holds one table, \<^verbatim>\<open>llm_requests\<close>, with eight columns and
  five indexes, and exactly two of the indexes are composite: \<^verbatim>\<open>idx_app_created\<close> on
  (app_id, created_at) and \<^verbatim>\<open>idx_model_created\<close> on (model_name, created_at). The three
  remaining indexes are the single-column ones that \<^verbatim>\<open>index=True\<close> declares.
\<close>

theorem one_table_two_composite_indexes:
  "get_model_info = [(''llm_requests'', \<lparr>m_table = ''llm_requests'', m_columns = 8, m_indexes = 5\<rparr>)]
   \<and> filter composite (table_indexes llm_requests)
       = [Index ''idx_app_created'' [''app_id'', ''created_at''],
          Index ''idx_model_created'' [''model_name'', ''created_at'']]
   \<and> filter (\<lambda>i. \<not> composite i) (table_indexes llm_requests)
       = [Index ''ix_llm_requests_app_id'' [''app_id''],
          Index ''ix_llm_requests_model_name'' [''model_name''],
          Index ''ix_llm_requests_created_at'' [''created_at'']]"
  by (simp add: get_model_info_def llm_requests_def table_indexes_def composite_def
      Column_def Index_def)

text \<open>
  C5: \<^verbatim>\<open>queryByApp\<close> and \<^verbatim>\<open>queryByModel\<close> return exactly the stored rows whose key
  equals the argument (as a multiset: each matching row once per occurrence), in
  non-decreasing \<^verbatim>\<open>created_at\<close> order, and the empty list when no row matches.
\<close>

theorem queries_filter_and_order:
  "mset (queryByApp a rs) = filter_mset (\<lambda>r. LLMRequest.app_id r = a) (mset rs)
   \<and> sorted (map created_at (queryByApp a rs))
   \<and> ((\<forall>r \<in> set rs. LLMRequest.app_id r \<noteq> a) \<longrightarrow> queryByApp a rs = [])
   \<and> mset (queryByModel m rs) = filter_mset (\<lambda>r. LLMRequest.model_name r = m) (mset rs)
   \<and> sorted (map created_at (queryByModel m rs))
   \<and> ((\<forall>r \<in> set rs. LLMRequest.model_name r \<noteq> m) \<longrightarrow> queryByModel m rs = [])"
proof -
  have none: "filter P rs = []" if "\<forall>r \<in> set rs. \<not> P r" for P :: "LLMRequest \<Rightarrow> bool"
    using that by (simp add: filter_empty_conv)
  show ?thesis
    unfolding queryByApp_def queryByModel_def
    by (auto simp: none)
qed

text \<open>
  The queries on three stored rows: two rows of one application come back oldest first,
  an unknown key gives the empty list.
\<close>

theorem queries_filter_and_order_witness:
  "queryByApp ''chatbot-v1'' stored_rows
     = [row 3 ''chatbot-v1'' ''llama3:8b'' 10, row 1 ''chatbot-v1'' ''gpt-4o-mini'' 30]
   \<and> sorted (map created_at (queryByApp ''chatbot-v1'' stored_rows))
   \<and> queryByApp ''nobody'' stored_rows = []
   \<and> queryByModel ''llama3:8b'' stored_rows
     = [row 3 ''chatbot-v1'' ''llama3:8b'' 10, row 2 ''search'' ''llama3:8b'' 20]
   \<and> queryByModel ''nothing'' stored_rows = []"
proof -
  have a: "\<forall>r \<in> set stored_rows. LLMRequest.app_id r \<noteq> ''nobody''"
    by (simp add: stored_rows_def row_def)
  have m: "\<forall>r \<in> set stored_rows. LLMRequest.model_name r \<noteq> ''nothing''"
    by (simp add: stored_rows_def row_def)
  have e1: "queryByApp ''chatbot-v1'' stored_rows
     = [row 3 ''chatbot-v1'' ''llama3:8b'' 10, row 1 ''chatbot-v1'' ''gpt-4o-mini'' 30]"
    by code_simp
  have e2: "queryByModel ''llama3:8b'' stored_rows
     = [row 3 ''chatbot-v1'' ''llama3:8b'' 10, row 2 ''search'' ''llama3:8b'' 20]"
    by code_simp
  from queries_filter_and_order [of "''nobody''" stored_rows "''nothing''"] a m
  have "queryByApp ''nobody'' stored_rows = []" "queryByModel ''nothing'' stored_rows = []"
    by blast+
  moreover from queries_filter_and_order [of "''chatbot-v1''" stored_rows "''nothing''"]
  have "sorted (map created_at (queryByApp ''chatbot-v1'' stored_rows))" by blast
  ultimately show ?thesis using e1 e2 by simp
qed

section \<open>The string form of an identifier\<close>

text \<open>
  Two UUIDs with the same string form are equal: the hexadecimal digits determine every
  group of four bits, and the dashes are at fixed positions.
\<close>

lemma str_uuid_example: "str_uuid uuid_a = ''3f2b8a1c-9d4e-4f6a-8b7c-1d2e3f4a5b6c''"
  by code_simp









section \<open>Validation and the route\<close>

lemma int_lax_sign: "x < 0 \<Longrightarrow> int_lax x = Some n \<Longrightarrow> n < 0"
  unfolding int_lax_def by (auto split: if_splits)

lemma int_lax_of_int: "- (2 ^ 63) < n \<Longrightarrow> n < 2 ^ 63 \<Longrightarrow> int_lax (of_int n) = Some n"
proof -
  assume "- (2 ^ 63) < n" "n < 2 ^ 63"
  then have "(of_int (- (2 ^ 63)) :: rat) < of_int n" "(of_int n :: rat) < of_int (2 ^ 63)"
    by (simp_all only: of_int_less_iff)
  then show ?thesis unfolding int_lax_def by simp
qed

lemma int_coerce_of_int: "int_coerce (of_int n) = Some n"
  unfolding int_coerce_def by simp

lemma int_coerce_sign: "x \<le> - 1 \<Longrightarrow> int_coerce x = Some n \<Longrightarrow> n < 0"
proof -
  assume x: "x \<le> - 1" and c: "int_coerce x = Some n"
  from x have "\<lceil>x\<rceil> \<le> - 1" by (simp add: ceiling_le_iff)
  with x c show ?thesis unfolding int_coerce_def by (auto split: if_splits)
qed

lemma validate_Inr:
  "validate_TelemetryEvent iv b = Inr ev \<longleftrightarrow>
     (\<exists>a m p r l tc ts. b_app_id b = Valid a \<and> b_model_name b = Valid m \<and> b_prompt b = Valid p
        \<and> b_response b = Valid r \<and> field_latency_ms iv (b_latency_ms b) = Some l
        \<and> field_token_count iv (b_token_count b) = Some tc
        \<and> optional (b_timestamp b) = Some ts
        \<and> ev = \<lparr>app_id = a, model_name = m, prompt = p, response = r, latency_ms = l,
                  token_count = tc, timestamp = ts\<rparr>)"
  unfolding validate_TelemetryEvent_def required_def
  by (auto split: option.splits Option.bind_splits field.splits)

lemma post_log_Inr:
  "post_log iv u now b w = (Inr resp, w') \<longleftrightarrow>
     (\<exists>ev. validate_TelemetryEvent iv b = Inr ev
        \<and> resp = \<lparr>request_id = str_uuid u, status = ''logged''\<rparr>
        \<and> w' = w\<lparr>console := console w @
                   [Line ''Received telemetry:'',
                    Repr (telemetry_record (str_uuid u)
                            (case timestamp ev of Some t \<Rightarrow> t | None \<Rightarrow> now) ev)]\<rparr>)"
  unfolding post_log_def log_telemetry_def print_def Let_def
  by (auto split: sum.splits)

lemma post_log_Inl:
  "post_log iv u now b w = (Inl e, w') \<longleftrightarrow> validate_TelemetryEvent iv b = Inl e \<and> w' = w"
  unfolding post_log_def log_telemetry_def Let_def
  by (auto split: sum.splits)




lemma printed_records_append:
  "printed_records (xs @ ys) = printed_records xs @ printed_records ys"
  by (induction xs rule: printed_records.induct) simp_all

section \<open>Runs\<close>





section \<open>Steps of the handler\<close>

text \<open>
  The validated scenario submission is the event the two handlers start from, and the three
  steps of one handler, taken together, are \<^verbatim>\<open>log_telemetry\<close> with the clock read at the
  second step.
\<close>

lemma scenario_event_validated:
  "validate_TelemetryEvent int_lax scenario_body = Inr scenario_event
   \<and> validate_TelemetryEvent int_coerce scenario_body = Inr scenario_event"
  by code_simp

lemma advance_thrice:
  "(case advance u1 t1 (Received ev) w of
      (h1, w1) \<Rightarrow> (case advance u2 t2 h1 w1 of (h2, w2) \<Rightarrow> advance u3 t3 h2 w2))
   = (Returned (telemetry_record (str_uuid u1)
                  (case timestamp ev of Some t \<Rightarrow> t | None \<Rightarrow> t2) ev)
               (fst (log_telemetry u1 t2 ev w)),
      snd (log_telemetry u1 t2 ev w))"
  by (simp add: log_telemetry_def Let_def)

text \<open>
  Once a handler has settled its timestamp, no tick of any thread changes what it prints
  and returns.
\<close>

lemma length_step: "length (fst (step k s)) = length (fst s)"
  by (cases s) (simp split: prod.splits)

lemma length_run: "length (fst (run ks s)) = length (fst s)"
  unfolding run_def by (induction ks arbitrary: s) (simp_all add: length_step)

lemma run_append: "run (xs @ ys) s = run ys (run xs s)"
  unfolding run_def by simp

lemma run_take_Suc:
  "p < length ks \<Longrightarrow> run (take (Suc p) ks) s = step (ks ! p) (run (take p ks) s)"
  by (simp add: take_Suc_conv_app_nth run_append) (simp add: run_def)

lemma step_keeps_settled:
  assumes "i < length hs"
    and "hs ! i = Stamped rid ts ev
         \<or> hs ! i = Returned (telemetry_record rid ts ev) \<lparr>request_id = rid, status = ''logged''\<rparr>"
  shows "fst (step k (hs, w)) ! i = Stamped rid ts ev
         \<or> fst (step k (hs, w)) ! i
             = Returned (telemetry_record rid ts ev) \<lparr>request_id = rid, status = ''logged''\<rparr>"
proof (cases "k_thread k = i")
  case True
  with assms show ?thesis by (auto simp: Let_def split: prod.splits)
next
  case False
  with assms show ?thesis by (auto split: prod.splits)
qed

lemma run_keeps_settled:
  assumes "i < length (fst s)"
    and "fst s ! i = Stamped rid ts ev
         \<or> fst s ! i = Returned (telemetry_record rid ts ev) \<lparr>request_id = rid, status = ''logged''\<rparr>"
  shows "fst (run ks s) ! i = Stamped rid ts ev
         \<or> fst (run ks s) ! i
             = Returned (telemetry_record rid ts ev) \<lparr>request_id = rid, status = ''logged''\<rparr>"
  using assms
proof (induction ks arbitrary: s)
  case Nil
  then show ?case by (simp add: run_def)
next
  case (Cons k ks)
  obtain hs w where s: "s = (hs, w)" by (cases s)
  have "run (k # ks) s = run ks (step k s)" by (simp add: run_def)
  moreover have "i < length (fst (step k s))"
    using Cons.prems(1) by (simp add: length_step)
  moreover have "fst (step k s) ! i = Stamped rid ts ev
         \<or> fst (step k s) ! i
             = Returned (telemetry_record rid ts ev) \<lparr>request_id = rid, status = ''logged''\<rparr>"
    using step_keeps_settled [of i hs rid ts ev k w] Cons.prems unfolding s by simp
  ultimately show ?case using Cons.IH [of "step k s"] by simp
qed

lemma stamped_at_tick:
  assumes p: "p < length ks" and i: "k_thread (ks ! p) = i" "i < length hs"
    and before: "fst (run (take p ks) (hs, w)) ! i = Identified rid ev"
    and final: "fst (run ks (hs, w)) ! i = Returned d resp"
  shows "d = telemetry_record rid (case timestamp ev of Some t \<Rightarrow> t | None \<Rightarrow> k_utcnow (ks ! p)) ev
         \<and> resp = \<lparr>request_id = rid, status = ''logged''\<rparr>"
proof -
  let ?ts = "case timestamp ev of Some t \<Rightarrow> t | None \<Rightarrow> k_utcnow (ks ! p)"
  obtain hs1 w1 where s1: "run (take p ks) (hs, w) = (hs1, w1)"
    by (cases "run (take p ks) (hs, w)")
  have l1: "length hs1 = length hs"
    using length_run [of "take p ks" "(hs, w)"] s1 by simp
  have "run (take (Suc p) ks) (hs, w) = step (ks ! p) (hs1, w1)"
    using run_take_Suc [OF p] s1 by simp
  moreover have "fst (step (ks ! p) (hs1, w1)) ! i = Stamped rid ?ts ev"
    using before s1 i l1 by simp
  ultimately have now: "fst (run (take (Suc p) ks) (hs, w)) ! i = Stamped rid ?ts ev"
    by simp
  have len: "i < length (fst (run (take (Suc p) ks) (hs, w)))"
    using i by (simp add: length_run)
  have "run ks (hs, w) = run (drop (Suc p) ks) (run (take (Suc p) ks) (hs, w))"
    using run_append [of "take (Suc p) ks" "drop (Suc p) ks" "(hs, w)"] by simp
  with run_keeps_settled [OF len, of rid ?ts ev "drop (Suc p) ks"] now
  have "fst (run ks (hs, w)) ! i = Stamped rid ?ts ev
         \<or> fst (run ks (hs, w)) ! i
             = Returned (telemetry_record rid ?ts ev) \<lparr>request_id = rid, status = ''logged''\<rparr>"
    by simp
  with final show ?thesis by auto
qed

section \<open>Properties of the ingestion endpoint\<close>

subsection \<open>Success and persistence\<close>

text \<open>
  C1, as stated, fails: the scenario submission is answered with an identifier and the
  status \<^verbatim>\<open>logged\<close> while the table has no row, where the claim asks for one more row
  than before.
\<close>

theorem accepted_without_persisting:
  "fst (post_log int_lax 0x3f2b8a1c9d4e4f6a8b7c1d2e3f4a5b6c 1700000000000000 scenario_body
          empty_world)
     = Inr \<lparr>request_id = ''3f2b8a1c-9d4e-4f6a-8b7c-1d2e3f4a5b6c'', status = ''logged''\<rparr>
   \<and> rows (snd (post_log int_lax 0x3f2b8a1c9d4e4f6a8b7c1d2e3f4a5b6c 1700000000000000
                   scenario_body empty_world)) = []"
  by code_simp

text \<open>
  C1, amended: a successful call of the route returns the string form of the UUID drawn
  with the status \<^verbatim>\<open>logged\<close>, and its only effect is to print two things, the line
  \<^verbatim>\<open>Received telemetry:\<close> and the one record built from the validated event; the table
  is what it was before: no record is handed to storage.
\<close>

theorem success_prints_and_stores_nothing:
  assumes "post_log iv u now b w = (Inr resp, w')"
  shows "\<exists>ev. validate_TelemetryEvent iv b = Inr ev
           \<and> resp = \<lparr>request_id = str_uuid u, status = ''logged''\<rparr>
           \<and> console w' = console w @
                 [Line ''Received telemetry:'',
                  Repr (telemetry_record (str_uuid u)
                          (case timestamp ev of Some t \<Rightarrow> t | None \<Rightarrow> now) ev)]
           \<and> rows w' = rows w"
  using assms unfolding post_log_Inr by auto

text \<open>
  The scenario submission: the response, the console and the table after the call.
\<close>

theorem success_prints_and_stores_nothing_witness:
  "post_log int_lax uuid_a 1700000000000000 scenario_body empty_world
     = (Inr \<lparr>request_id = ''3f2b8a1c-9d4e-4f6a-8b7c-1d2e3f4a5b6c'', status = ''logged''\<rparr>,
        \<lparr>console =
           [Line ''Received telemetry:'',
            Repr [(''id'', PyStr ''3f2b8a1c-9d4e-4f6a-8b7c-1d2e3f4a5b6c''),
                  (''app_id'', PyStr ''chatbot-v1''),
                  (''model_name'', PyStr ''gpt-4o-mini''),
                  (''prompt'', PyStr ''hi''),
                  (''response'', PyStr ''hello''),
                  (''latency_ms'', PyInt 120),
                  (''token_count'', PyNone),
                  (''timestamp'', PyDatetime 1700000000000000)]],
         rows = []\<rparr>)
   \<and> str_uuid uuid_a = ''3f2b8a1c-9d4e-4f6a-8b7c-1d2e3f4a5b6c''"
proof -
  have run: "post_log int_lax uuid_a 1700000000000000 scenario_body empty_world
     = (Inr \<lparr>request_id = ''3f2b8a1c-9d4e-4f6a-8b7c-1d2e3f4a5b6c'', status = ''logged''\<rparr>,
        \<lparr>console =
           [Line ''Received telemetry:'',
            Repr [(''id'', PyStr ''3f2b8a1c-9d4e-4f6a-8b7c-1d2e3f4a5b6c''),
                  (''app_id'', PyStr ''chatbot-v1''),
                  (''model_name'', PyStr ''gpt-4o-mini''),
                  (''prompt'', PyStr ''hi''),
                  (''response'', PyStr ''hello''),
                  (''latency_ms'', PyInt 120),
                  (''token_count'', PyNone),
                  (''timestamp'', PyDatetime 1700000000000000)]],
         rows = []\<rparr>)"
    by code_simp
  from success_prints_and_stores_nothing [OF run]
  have "\<lparr>request_id = ''3f2b8a1c-9d4e-4f6a-8b7c-1d2e3f4a5b6c'', status = ''logged''\<rparr>
          = \<lparr>request_id = str_uuid uuid_a, status = ''logged''\<rparr>"
    by blast
  then have "str_uuid uuid_a = ''3f2b8a1c-9d4e-4f6a-8b7c-1d2e3f4a5b6c''" by simp
  with run show ?thesis by simp
qed

subsection \<open>Rejection\<close>

text \<open>
  C2, as stated, fails when the validation library truncates (version 1): the scenario
  submission with the negative latency -0.5 is accepted with latency 0, an identifier is
  issued and the record is printed.
\<close>

theorem negative_fraction_accepted_by_truncation:
  "post_log int_coerce uuid_a 1700000000000000 half_negative_body empty_world
     = (Inr \<lparr>request_id = ''3f2b8a1c-9d4e-4f6a-8b7c-1d2e3f4a5b6c'', status = ''logged''\<rparr>,
        \<lparr>console =
           [Line ''Received telemetry:'',
            Repr [(''id'', PyStr ''3f2b8a1c-9d4e-4f6a-8b7c-1d2e3f4a5b6c''),
                  (''app_id'', PyStr ''chatbot-v1''),
                  (''model_name'', PyStr ''gpt-4o-mini''),
                  (''prompt'', PyStr ''hi''),
                  (''response'', PyStr ''hello''),
                  (''latency_ms'', PyInt 0),
                  (''token_count'', PyNone),
                  (''timestamp'', PyDatetime 1700000000000000)]],
         rows = []\<rparr>)"
  by code_simp

text \<open>
  C2, amended: under either version of the validation library, a body in which app_id,
  model_name, prompt, response or latency_ms is missing or refused for its type, or whose
  latency_ms is negative, is answered with a client error (status 422); no identifier is
  issued, nothing is printed and the table is unchanged. Where the library truncates, the
  negative latency has to be at most -1, which every negative integer is; where it refuses
  fractions, any negative number will do.
\<close>

theorem rejection_changes_nothing:
  assumes lib: "iv = int_lax \<or> iv = int_coerce"
    and bad: "required (b_app_id b) = None \<or> required (b_model_name b) = None
              \<or> required (b_prompt b) = None \<or> required (b_response b) = None
              \<or> required (b_latency_ms b) = None
              \<or> (\<exists>x. b_latency_ms b = Valid x \<and> x < 0 \<and> (iv = int_lax \<or> x \<le> - 1))"
  shows "\<exists>e. post_log iv u now b w = (Inl e, w) \<and> client_error e
           \<and> issued [fst (post_log iv u now b w)] = []"
proof -
  have lat: "field_latency_ms iv (b_latency_ms b) = None"
    if x: "b_latency_ms b = Valid x" "x < 0" "iv = int_lax \<or> x \<le> - 1" for x
  proof -
    have "n < 0" if "iv x = Some n" for n
      using that x lib int_lax_sign [of x n] int_coerce_sign [of x n] by auto
    then show ?thesis
      using x(1) unfolding field_latency_ms_def required_def
      by (auto split: option.splits)
  qed
  have "\<not> (\<exists>ev. validate_TelemetryEvent iv b = Inr ev)"
    using bad lat unfolding validate_Inr
    by (auto simp: field_latency_ms_def required_def)
  then obtain e where e: "validate_TelemetryEvent iv b = Inl e"
    by (cases "validate_TelemetryEvent iv b") auto
  then have "post_log iv u now b w = (Inl e, w)"
    by (simp add: post_log_Inl)
  moreover have "client_error e"
    by (cases e) (simp add: client_error_def)
  ultimately show ?thesis by simp
qed

text \<open>
  Latency -5 under the truncating library, latency -0.5 under the one that refuses
  fractions, and a body without prompt: each is refused, and the world after the call is
  the world before it.
\<close>

theorem rejection_changes_nothing_witness:
  "post_log int_coerce uuid_a 1700000000000000 negative_body empty_world
       = (Inl (RequestValidationError [''latency_ms'']), empty_world)
   \<and> post_log int_lax uuid_a 1700000000000000 half_negative_body empty_world
       = (Inl (RequestValidationError [''latency_ms'']), empty_world)
   \<and> post_log int_lax uuid_a 1700000000000000 missing_body empty_world
       = (Inl (RequestValidationError [''prompt'']), empty_world)
   \<and> client_error (RequestValidationError [''latency_ms''])
   \<and> client_error (RequestValidationError [''prompt''])"
proof -
  have b1: "required (b_app_id negative_body) = None \<or> required (b_model_name negative_body) = None
      \<or> required (b_prompt negative_body) = None \<or> required (b_response negative_body) = None
      \<or> required (b_latency_ms negative_body) = None
      \<or> (\<exists>x. b_latency_ms negative_body = Valid x \<and> x < 0
              \<and> (int_coerce = int_lax \<or> x \<le> - 1))"
    by (simp add: negative_body_def)
  have b2: "required (b_app_id half_negative_body) = None
      \<or> required (b_model_name half_negative_body) = None
      \<or> required (b_prompt half_negative_body) = None
      \<or> required (b_response half_negative_body) = None
      \<or> required (b_latency_ms half_negative_body) = None
      \<or> (\<exists>x. b_latency_ms half_negative_body = Valid x \<and> x < 0
              \<and> (int_lax = int_lax \<or> x \<le> - 1))"
    by (simp add: half_negative_body_def)
  have b3: "required (b_app_id missing_body) = None \<or> required (b_model_name missing_body) = None
      \<or> required (b_prompt missing_body) = None \<or> required (b_response missing_body) = None
      \<or> required (b_latency_ms missing_body) = None
      \<or> (\<exists>x. b_latency_ms missing_body = Valid x \<and> x < 0
              \<and> (int_lax = int_lax \<or> x \<le> - 1))"
    by (simp add: missing_body_def required_def)
  have l1: "int_coerce = int_lax \<or> int_coerce = int_coerce" by simp
  have l2: "int_lax = int_lax \<or> int_lax = int_coerce" by simp
  from rejection_changes_nothing [OF l1 b1, of uuid_a 1700000000000000 empty_world]
  obtain e1 where e1: "post_log int_coerce uuid_a 1700000000000000 negative_body empty_world
      = (Inl e1, empty_world)" and c1: "client_error e1" by blast
  from rejection_changes_nothing [OF l2 b2, of uuid_a 1700000000000000 empty_world]
  obtain e2 where e2: "post_log int_lax uuid_a 1700000000000000 half_negative_body empty_world
      = (Inl e2, empty_world)" by blast
  from rejection_changes_nothing [OF l2 b3, of uuid_a 1700000000000000 empty_world]
  obtain e3 where e3: "post_log int_lax uuid_a 1700000000000000 missing_body empty_world
      = (Inl e3, empty_world)" and c3: "client_error e3" by blast
  have "fst (post_log int_coerce uuid_a 1700000000000000 negative_body empty_world)
          = Inl (RequestValidationError [''latency_ms''])"
    by code_simp
  with e1 have v1: "e1 = RequestValidationError [''latency_ms'']" by simp
  have "fst (post_log int_lax uuid_a 1700000000000000 half_negative_body empty_world)
          = Inl (RequestValidationError [''latency_ms''])"
    by code_simp
  with e2 have v2: "e2 = RequestValidationError [''latency_ms'']" by simp
  have "fst (post_log int_lax uuid_a 1700000000000000 missing_body empty_world)
          = Inl (RequestValidationError [''prompt''])"
    by code_simp
  with e3 have v3: "e3 = RequestValidationError [''prompt'']" by simp
  from e1 e2 e3 c1 c3 v1 v2 v3 show ?thesis by simp
qed

subsection \<open>Identifiers\<close>




subsection \<open>Timestamps\<close>

text \<open>
  C4: the record built for an accepted submission carries the timestamp the client
  supplied, whatever its value, and otherwise the reading of the system clock at the call.
  The record is complete when it is printed, the only thing done with it.
\<close>

theorem timestamp_defaulting:
  assumes "post_log iv u now b w = (Inr resp, w')"
  shows "\<exists>d. printed_records (console w') = printed_records (console w) @ [d]
           \<and> timestamp_entry d = Some (case b_timestamp b of Valid t \<Rightarrow> t | _ \<Rightarrow> now)
           \<and> b_timestamp b \<noteq> Invalid"
proof -
  from assms obtain ev where ev: "validate_TelemetryEvent iv b = Inr ev"
    and w': "console w' = console w @
                 [Line ''Received telemetry:'',
                  Repr (telemetry_record (str_uuid u)
                          (case timestamp ev of Some t \<Rightarrow> t | None \<Rightarrow> now) ev)]"
    unfolding post_log_Inr by auto
  from ev obtain ts where o: "optional (b_timestamp b) = Some ts" and t: "timestamp ev = ts"
    unfolding validate_Inr by auto
  from o have "(case ts of Some t \<Rightarrow> t | None \<Rightarrow> now)
               = (case b_timestamp b of Valid t \<Rightarrow> t | _ \<Rightarrow> now)
             \<and> b_timestamp b \<noteq> Invalid"
    by (cases "b_timestamp b") (auto simp: optional_def)
  with t have "(case timestamp ev of Some t \<Rightarrow> t | None \<Rightarrow> now)
               = (case b_timestamp b of Valid t \<Rightarrow> t | _ \<Rightarrow> now)"
    and "b_timestamp b \<noteq> Invalid"
    by simp_all
  with w' show ?thesis
    by (simp add: printed_records_append timestamp_entry_def telemetry_record_def)
qed

text \<open>
  A client timestamp later than the clock is kept as it is; without one the clock
  reading is used.
\<close>

theorem timestamp_defaulting_witness:
  "timestamp_entry (last (printed_records (console (snd
      (post_log int_lax uuid_a 1700000000000000 stamped_body empty_world))))) = Some 2000000000000000
   \<and> timestamp_entry (last (printed_records (console (snd
      (post_log int_lax uuid_a 1700000000000000 scenario_body empty_world))))) = Some 1700000000000000"
proof -
  have r1: "post_log int_lax uuid_a 1700000000000000 stamped_body empty_world
         = (Inr (projr (fst (post_log int_lax uuid_a 1700000000000000 stamped_body empty_world))),
            snd (post_log int_lax uuid_a 1700000000000000 stamped_body empty_world))"
    by code_simp
  have r2: "post_log int_lax uuid_a 1700000000000000 scenario_body empty_world
         = (Inr (projr (fst (post_log int_lax uuid_a 1700000000000000 scenario_body empty_world))),
            snd (post_log int_lax uuid_a 1700000000000000 scenario_body empty_world))"
    by code_simp
  have t1: "b_timestamp stamped_body = Valid 2000000000000000"
    by (simp add: stamped_body_def)
  have t2: "b_timestamp scenario_body = Absent"
    by (simp add: scenario_body_def)
  from timestamp_defaulting [OF r1] t1 timestamp_defaulting [OF r2] t2
  show ?thesis by auto
qed

text \<open>
  C9, as stated, fails when handlers overlap: under a clock that only advances, thread 0
  has its identifier while thread 1 has none yet, and still ends with the later timestamp,
  because thread 1 reads the clock first.
\<close>

theorem identifier_order_is_not_timestamp_order:
  "sorted (map k_utcnow overtaking)
   \<and> map identifier_of (fst (run (take 1 overtaking) two_handlers))
       = [Some ''3f2b8a1c-9d4e-4f6a-8b7c-1d2e3f4a5b6c'', None]
   \<and> map identifier_of (fst (run overtaking two_handlers))
       = [Some ''3f2b8a1c-9d4e-4f6a-8b7c-1d2e3f4a5b6c'',
          Some ''9c5b94b1-35ad-49bb-b118-8e8fc24abf80'']
   \<and> map timestamp_of (fst (run overtaking two_handlers))
       = [Some 1700000000000003, Some 1700000000000002]"
  by code_simp

text \<open>
  C9, amended: under a monotone clock and any interleaving of handlers, of two accepted
  submissions without client timestamp the one whose handler reads the clock (line 61) no
  later than the other's gets a timestamp less than or equal to the other's: each record
  carries the identifier of its handler and the clock reading of the tick at which that
  handler read the clock.
\<close>

theorem clock_order_decides_timestamps:
  assumes clock: "sorted (map k_utcnow ks)"
    and order: "p \<le> q" "q < length ks"
    and threads: "k_thread (ks ! p) = i" "k_thread (ks ! q) = j" "i < length hs" "j < length hs"
    and reads: "fst (run (take p ks) (hs, w)) ! i = Identified rid_i ev_i"
      "fst (run (take q ks) (hs, w)) ! j = Identified rid_j ev_j"
    and omitted: "timestamp ev_i = None" "timestamp ev_j = None"
    and finished: "fst (run ks (hs, w)) ! i = Returned d_i resp_i"
      "fst (run ks (hs, w)) ! j = Returned d_j resp_j"
  shows "map_of d_i ''id'' = Some (PyStr rid_i) \<and> map_of d_j ''id'' = Some (PyStr rid_j)
         \<and> timestamp_entry d_i = Some (k_utcnow (ks ! p))
         \<and> timestamp_entry d_j = Some (k_utcnow (ks ! q))
         \<and> timestamp_entry d_i \<le> timestamp_entry d_j"
proof -
  from order have p: "p < length ks" by simp
  have "k_utcnow (ks ! p) \<le> k_utcnow (ks ! q)"
    using clock order p sorted_nth_mono [of "map k_utcnow ks" p q] by simp
  moreover have "d_i = telemetry_record rid_i (k_utcnow (ks ! p)) ev_i"
    using stamped_at_tick [OF p threads(1,3) reads(1) finished(1)] omitted(1) by simp
  moreover have "d_j = telemetry_record rid_j (k_utcnow (ks ! q)) ev_j"
    using stamped_at_tick [OF order(2) threads(2,4) reads(2) finished(2)] omitted(2) by simp
  ultimately show ?thesis
    by (simp add: timestamp_entry_def telemetry_record_def)
qed

text \<open>
  In the schedule above, thread 1 reads the clock at tick 2 and thread 0 at tick 3.
\<close>

theorem clock_order_decides_timestamps_witness:
  "fst (run overtaking two_handlers) ! 1
     = Returned (telemetry_record ''9c5b94b1-35ad-49bb-b118-8e8fc24abf80'' 1700000000000002
                   scenario_event)
         \<lparr>request_id = ''9c5b94b1-35ad-49bb-b118-8e8fc24abf80'', status = ''logged''\<rparr>
   \<and> fst (run overtaking two_handlers) ! 0
     = Returned (telemetry_record ''3f2b8a1c-9d4e-4f6a-8b7c-1d2e3f4a5b6c'' 1700000000000003
                   scenario_event)
         \<lparr>request_id = ''3f2b8a1c-9d4e-4f6a-8b7c-1d2e3f4a5b6c'', status = ''logged''\<rparr>
   \<and> timestamp_entry (telemetry_record ''9c5b94b1-35ad-49bb-b118-8e8fc24abf80''
         1700000000000002 scenario_event) = Some 1700000000000002
   \<and> timestamp_entry (telemetry_record ''3f2b8a1c-9d4e-4f6a-8b7c-1d2e3f4a5b6c''
         1700000000000003 scenario_event) = Some 1700000000000003
   \<and> timestamp_entry (telemetry_record ''9c5b94b1-35ad-49bb-b118-8e8fc24abf80''
         1700000000000002 scenario_event)
       \<le> timestamp_entry (telemetry_record ''3f2b8a1c-9d4e-4f6a-8b7c-1d2e3f4a5b6c''
         1700000000000003 scenario_event)"
proof -
  let ?hs = "[Received scenario_event, Received scenario_event]"
  have two: "two_handlers = (?hs, empty_world)" by (simp add: two_handlers_def)
  have clock: "sorted (map k_utcnow overtaking)"
    by (simp add: overtaking_def at_tick_def)
  have order: "(2::nat) \<le> 3" "3 < length overtaking"
    by (simp_all add: overtaking_def)
  have threads: "k_thread (overtaking ! 2) = 1" "k_thread (overtaking ! 3) = 0"
    "1 < length ?hs" "0 < length ?hs"
    by (simp_all add: overtaking_def at_tick_def)
  have reads: "fst (run (take 2 overtaking) (?hs, empty_world)) ! 1
                 = Identified ''9c5b94b1-35ad-49bb-b118-8e8fc24abf80'' scenario_event"
    "fst (run (take 3 overtaking) (?hs, empty_world)) ! 0
                 = Identified ''3f2b8a1c-9d4e-4f6a-8b7c-1d2e3f4a5b6c'' scenario_event"
    by code_simp+
  have omitted: "timestamp scenario_event = None"
    by (simp add: scenario_event_def)
  have finished: "fst (run overtaking (?hs, empty_world)) ! 1
     = Returned (telemetry_record ''9c5b94b1-35ad-49bb-b118-8e8fc24abf80'' 1700000000000002
                   scenario_event)
         \<lparr>request_id = ''9c5b94b1-35ad-49bb-b118-8e8fc24abf80'', status = ''logged''\<rparr>"
    "fst (run overtaking (?hs, empty_world)) ! 0
     = Returned (telemetry_record ''3f2b8a1c-9d4e-4f6a-8b7c-1d2e3f4a5b6c'' 1700000000000003
                   scenario_event)
         \<lparr>request_id = ''3f2b8a1c-9d4e-4f6a-8b7c-1d2e3f4a5b6c'', status = ''logged''\<rparr>"
    by code_simp+
  have t2: "k_utcnow (overtaking ! 2) = 1700000000000002"
    and t3: "k_utcnow (overtaking ! 3) = 1700000000000003"
    by (simp_all add: overtaking_def at_tick_def)
  from clock_order_decides_timestamps [OF clock order threads reads omitted omitted finished]
    finished t2 t3
  show ?thesis unfolding two by simp
qed

subsection \<open>Token count\<close>

text \<open>
  C7, as stated, fails: \<^verbatim>\<open>token_count\<close> is not a column of the table, and a submission
  with a token count is accepted without any row being stored.
\<close>

theorem token_count_not_a_column:
  "''token_count'' \<notin> set (map c_name (t_columns llm_requests))
   \<and> fst (post_log int_lax uuid_a 1700000000000000 token_body empty_world)
       = Inr \<lparr>request_id = ''3f2b8a1c-9d4e-4f6a-8b7c-1d2e3f4a5b6c'', status = ''logged''\<rparr>
   \<and> rows (snd (post_log int_lax uuid_a 1700000000000000 token_body empty_world)) = []"
  by code_simp

text \<open>
  C7, amended: the record printed for an accepted submission has a \<^verbatim>\<open>token_count\<close>
  entry: \<^verbatim>\<open>None\<close> when the client sent none, and the integer the client sent when the
  validator passes integers unchanged. It is not stored: the table is unchanged.
\<close>

theorem token_count_in_printed_record:
  assumes "post_log iv u now b w = (Inr resp, w')"
  shows "\<exists>d tc. printed_records (console w') = printed_records (console w) @ [d]
           \<and> field_token_count iv (b_token_count b) = Some tc
           \<and> map_of d ''token_count'' = Some (case tc of None \<Rightarrow> PyNone | Some n \<Rightarrow> PyInt n)
           \<and> (b_token_count b = Absent \<longrightarrow> tc = None)
           \<and> (\<forall>n. b_token_count b = Valid (of_int n) \<and> iv (of_int n) = Some n \<longrightarrow> tc = Some n)
           \<and> rows w' = rows w"
proof -
  from assms obtain ev where ev: "validate_TelemetryEvent iv b = Inr ev"
    and w': "w' = w\<lparr>console := console w @
                 [Line ''Received telemetry:'',
                  Repr (telemetry_record (str_uuid u)
                          (case timestamp ev of Some t \<Rightarrow> t | None \<Rightarrow> now) ev)]\<rparr>"
    unfolding post_log_Inr by auto
  from ev have tc: "field_token_count iv (b_token_count b) = Some (token_count ev)"
    unfolding validate_Inr by auto
  have "b_token_count b = Absent \<longrightarrow> token_count ev = None"
    using tc by (auto simp: field_token_count_def optional_def)
  moreover have "\<forall>n. b_token_count b = Valid (of_int n) \<and> iv (of_int n) = Some n
                    \<longrightarrow> token_count ev = Some n"
    using tc by (auto simp: field_token_count_def optional_def)
  ultimately show ?thesis
    using tc w' by (simp add: printed_records_append telemetry_record_def)
qed

text \<open>
  The scenario submission with token count 42.
\<close>

theorem token_count_in_printed_record_witness:
  "post_log int_lax uuid_a 1700000000000000 token_body empty_world
     = (Inr \<lparr>request_id = ''3f2b8a1c-9d4e-4f6a-8b7c-1d2e3f4a5b6c'', status = ''logged''\<rparr>,
        \<lparr>console =
           [Line ''Received telemetry:'',
            Repr [(''id'', PyStr ''3f2b8a1c-9d4e-4f6a-8b7c-1d2e3f4a5b6c''),
                  (''app_id'', PyStr ''chatbot-v1''),
                  (''model_name'', PyStr ''gpt-4o-mini''),
                  (''prompt'', PyStr ''hi''),
                  (''response'', PyStr ''hello''),
                  (''latency_ms'', PyInt 120),
                  (''token_count'', PyInt 42),
                  (''timestamp'', PyDatetime 1700000000000000)]],
         rows = []\<rparr>)
   \<and> field_token_count int_lax (b_token_count token_body) = Some (Some 42)"
proof -
  have run: "post_log int_lax uuid_a 1700000000000000 token_body empty_world
     = (Inr \<lparr>request_id = ''3f2b8a1c-9d4e-4f6a-8b7c-1d2e3f4a5b6c'', status = ''logged''\<rparr>,
        \<lparr>console =
           [Line ''Received telemetry:'',
            Repr [(''id'', PyStr ''3f2b8a1c-9d4e-4f6a-8b7c-1d2e3f4a5b6c''),
                  (''app_id'', PyStr ''chatbot-v1''),
                  (''model_name'', PyStr ''gpt-4o-mini''),
                  (''prompt'', PyStr ''hi''),
                  (''response'', PyStr ''hello''),
                  (''latency_ms'', PyInt 120),
                  (''token_count'', PyInt 42),
                  (''timestamp'', PyDatetime 1700000000000000)]],
         rows = []\<rparr>)"
    by code_simp
  from token_count_in_printed_record [OF run]
  obtain tc where tc: "field_token_count int_lax (b_token_count token_body) = Some tc"
    and pres: "\<forall>n. b_token_count token_body = Valid (of_int n) \<and> int_lax (of_int n) = Some n
                 \<longrightarrow> tc = Some n"
    by blast
  have "b_token_count token_body = Valid (of_int 42)"
    by (simp add: token_body_def)
  moreover have "int_lax (of_int 42) = Some 42"
    by (rule int_lax_of_int) simp_all
  ultimately have "tc = Some 42" using pres by blast
  with tc run show ?thesis by simp
qed

subsection \<open>Latency\<close>

text \<open>
  C8, as stated, fails at latency 120.5: with the validator of version 2 the submission
  is refused, with the one of version 1 it is accepted and the record carries 120. In
  either case, and for the integral latency 120 as well, no row is stored.
\<close>

theorem fractional_latency_not_kept:
  "post_log int_lax uuid_a 1700000000000000 fractional_body empty_world
     = (Inl (RequestValidationError [''latency_ms'']), empty_world)
   \<and> map (\<lambda>d. map_of d ''latency_ms'')
        (printed_records (console (snd (post_log int_coerce uuid_a 1700000000000000 fractional_body empty_world))))
     = [Some (PyInt 120)]
   \<and> rows (snd (post_log int_coerce uuid_a 1700000000000000 fractional_body empty_world)) = []
   \<and> rows (snd (post_log int_lax uuid_a 1700000000000000 scenario_body empty_world)) = []"
  by code_simp

text \<open>
  C8, amended: under either version of the validation library, a submission whose four
  strings are present and valid, whose latency is a non-negative integer below \<open>2^63\<close>,
  whose token count is absent or an integer of magnitude below \<open>2^63\<close>, and whose
  timestamp is absent or valid, is accepted, and the record printed for it carries that
  latency, while nothing is stored.
\<close>

theorem integer_latency_accepted:
  assumes lib: "iv = int_lax \<or> iv = int_coerce"
    and strings: "b_app_id b = Valid a" "b_model_name b = Valid m" "b_prompt b = Valid p"
      "b_response b = Valid r"
    and latency: "b_latency_ms b = Valid (of_int n)" "0 \<le> n" "n < 2 ^ 63"
    and tokens: "b_token_count b = Absent
                 \<or> (\<exists>k. b_token_count b = Valid (of_int k) \<and> - (2 ^ 63) < k \<and> k < 2 ^ 63)"
    and time: "b_timestamp b \<noteq> Invalid"
  shows "\<exists>w' d. post_log iv u now b w
                  = (Inr \<lparr>request_id = str_uuid u, status = ''logged''\<rparr>, w')
           \<and> printed_records (console w') = printed_records (console w) @ [d]
           \<and> map_of d ''latency_ms'' = Some (PyInt n)
           \<and> rows w' = rows w"
proof -
  have pass: "iv (of_int k) = Some k" if "- (2 ^ 63) < k" "k < 2 ^ 63" for k
    using lib that int_lax_of_int [of k] int_coerce_of_int [of k] by auto
  have "- (2 ^ 63) < n" using latency(2) by (simp add: less_le_trans [of _ 0])
  then have "iv (of_int n) = Some n" using latency(3) by (rule pass)
  then have lat: "field_latency_ms iv (b_latency_ms b) = Some n"
    using latency(1,2) by (simp add: field_latency_ms_def required_def)
  from tokens pass obtain tc where tc: "field_token_count iv (b_token_count b) = Some tc"
    by (auto simp: field_token_count_def optional_def)
  from time obtain ts where ts: "optional (b_timestamp b) = Some ts"
    by (cases "b_timestamp b") (simp_all add: optional_def)
  define ev where "ev = \<lparr>app_id = a, model_name = m, prompt = p, response = r,
     latency_ms = n, token_count = tc, timestamp = ts\<rparr>"
  have v: "validate_TelemetryEvent iv b = Inr ev"
    unfolding validate_Inr ev_def using strings lat tc ts by simp
  define w' where "w' = w\<lparr>console := console w @
                   [Line ''Received telemetry:'',
                    Repr (telemetry_record (str_uuid u)
                            (case timestamp ev of Some t \<Rightarrow> t | None \<Rightarrow> now) ev)]\<rparr>"
  have "post_log iv u now b w = (Inr \<lparr>request_id = str_uuid u, status = ''logged''\<rparr>, w')"
    unfolding post_log_Inr w'_def using v by blast
  moreover have "printed_records (console w') = printed_records (console w) @
      [telemetry_record (str_uuid u) (case timestamp ev of Some t \<Rightarrow> t | None \<Rightarrow> now) ev]"
    by (simp add: w'_def printed_records_append)
  moreover have "map_of (telemetry_record (str_uuid u)
      (case timestamp ev of Some t \<Rightarrow> t | None \<Rightarrow> now) ev) ''latency_ms'' = Some (PyInt n)"
    by (simp add: telemetry_record_def ev_def)
  moreover have "rows w' = rows w" by (simp add: w'_def)
  ultimately show ?thesis by blast
qed

text \<open>
  The scenario submission under the truncating validator.
\<close>

theorem integer_latency_accepted_witness:
  "\<exists>w' d. post_log int_coerce uuid_a 1700000000000000 scenario_body empty_world
             = (Inr \<lparr>request_id = str_uuid uuid_a, status = ''logged''\<rparr>, w')
      \<and> printed_records (console w') = printed_records (console empty_world) @ [d]
      \<and> map_of d ''latency_ms'' = Some (PyInt 120)
      \<and> rows w' = rows empty_world"
proof (rule integer_latency_accepted)
  show "int_coerce = int_lax \<or> int_coerce = int_coerce" by simp
  show "b_app_id scenario_body = Valid ''chatbot-v1''"
    "b_model_name scenario_body = Valid ''gpt-4o-mini''"
    "b_prompt scenario_body = Valid ''hi''" "b_response scenario_body = Valid ''hello''"
    by (simp_all add: scenario_body_def)
  show "b_latency_ms scenario_body = Valid (of_int 120)"
    by (simp add: scenario_body_def)
  show "(0::int) \<le> 120" "(120::int) < 2 ^ 63" by simp_all
  show "b_token_count scenario_body = Absent
          \<or> (\<exists>k. b_token_count scenario_body = Valid (of_int k)
                 \<and> - (2 ^ 63) < k \<and> k < 2 ^ 63)"
    by (simp add: scenario_body_def)
  show "b_timestamp scenario_body \<noteq> Invalid"
    by (simp add: scenario_body_def)
qed

end
